theory Spec2Isabelle
  imports
    Main
    "HOL-Library.Char_ord"
    "HOL-Library.List_Lexorder"
    "HOL-Library.Product_Lexorder"
begin

section \<open>Strings and JavaScript values\<close>

text \<open>
  Strings are lists of characters, each character standing for one code point
  below 256. \<open>String.prototype.trim\<close> removes the white space of ECMAScript
  (in this range: TAB, LF, VT, FF, CR, SP and NBSP); \<open>toLowerCase\<close> maps
  \<open>A\<close>..\<open>Z\<close> and the upper-case letters of Latin-1 to their lower-case
  forms. SQLite's \<open>LOWER()\<close> only folds \<open>A\<close>..\<open>Z\<close>. Strings are compared
  by code point, as the \<open>BINARY\<close> collation of SQLite does.
\<close>

definition isWhiteSpace :: "char \<Rightarrow> bool" where
  "isWhiteSpace c = ((of_char c :: nat) \<in> {9, 10, 11, 12, 13, 32, 160})"

definition trim :: "string \<Rightarrow> string" where
  "trim s = rev (dropWhile isWhiteSpace (rev (dropWhile isWhiteSpace s)))"

definition toLowerCase_char :: "char \<Rightarrow> char" where
  "toLowerCase_char c =
     (let n = (of_char c :: nat)
      in if (65 \<le> n \<and> n \<le> 90) \<or> (192 \<le> n \<and> n \<le> 214) \<or> (216 \<le> n \<and> n \<le> 222)
         then char_of (n + 32) else c)"

definition toLowerCase :: "string \<Rightarrow> string" where
  "toLowerCase s = map toLowerCase_char s"

definition sql_lower_char :: "char \<Rightarrow> char" where
  "sql_lower_char c =
     (let n = (of_char c :: nat)
      in if 65 \<le> n \<and> n \<le> 90 then char_of (n + 32) else c)"

definition sql_lower :: "string \<Rightarrow> string" where
  "sql_lower s = map sql_lower_char s"

text \<open>\<open>x || null\<close> on a nullable string: the empty string is falsy.\<close>

definition or_null :: "string option \<Rightarrow> string option" where
  "or_null x = (case x of None \<Rightarrow> None | Some v \<Rightarrow> if v = [] then None else Some v)"

text \<open>A JavaScript \<open>Set\<close> keeps insertion order; adding a member again changes nothing.\<close>

definition set_add :: "'a list \<Rightarrow> 'a \<Rightarrow> 'a list" where
  "set_add acc x = (if x \<in> set acc then acc else acc @ [x])"

definition new_Set :: "'a list \<Rightarrow> 'a list" where
  "new_Set xs = foldl set_add [] xs"

section \<open>The store (lib/database.js)\<close>

record organization =
  org_id :: string
  org_name :: string
  org_parent_id :: "string option"

record user =
  user_id :: string
  user_organization_id :: "string option"
  user_organizationId :: "string option"
  user_role :: string
  user_is_active :: int

record task =
  task_id :: string
  task_organization_id :: string
  task_title :: string
  task_description :: "string option"
  task_status :: string
  task_category :: "string option"
  task_priority :: "string option"
  task_due_date :: "int option"
  task_position :: int
  task_created_by :: "string option"
  task_assigned_to :: "string option"
  task_created_at :: int

record category =
  cat_id :: string
  cat_organization_id :: string
  cat_name :: string
  cat_is_system :: int
  cat_created_at :: int

record category_role_access_row =
  cra_id :: string
  cra_category_id :: string
  cra_role :: string

record role_permission =
  rp_id :: string
  rp_organization_id :: "string option"
  rp_role :: string
  rp_permission :: string
  rp_enabled :: int

record role_row =
  role_id :: string
  role_name :: string
  role_description :: "string option"
  role_is_system :: int

text \<open>
  One list of rows per table, in the order a scan of the table returns them. A
  \<open>SELECT\<close> without \<open>ORDER BY\<close> returns its rows in that order, and an
  \<open>ORDER BY\<close> keeps it among rows that compare equal.
\<close>

record db =
  organizations :: "organization list"
  users :: "user list"
  tasks :: "task list"
  categories :: "category list"
  category_role_access :: "category_role_access_row list"
  role_permissions :: "role_permission list"
  roles :: "role_row list"

text \<open>
  What a call can throw: the three errors of the role functions, a constraint of the
  schema refused by SQLite (primary key, \<open>UNIQUE\<close>, foreign key), and the
  \<open>TypeError\<close> of calling a method that a value does not have.
\<close>

datatype error =
  RoleNotFound
  | CannotModifySystemRole
  | CannotDeleteSystemRole
  | ROLE_IN_USE
  | SQLITE_CONSTRAINT
  | TypeError

text \<open>\<open>get\<close>: the first row of a result, or \<open>null\<close>.\<close>

definition get :: "'a list \<Rightarrow> 'a option" where
  "get rows = (case rows of [] \<Rightarrow> None | row # _ \<Rightarrow> Some row)"

text \<open>
  \<open>withTransaction\<close>: \<open>BEGIN IMMEDIATE\<close>, the body, then \<open>COMMIT\<close>; when the
  body throws, \<open>ROLLBACK\<close> restores the store the transaction started from.
\<close>

definition withTransaction :: "db \<Rightarrow> (db \<Rightarrow> error + ('a \<times> db)) \<Rightarrow> (error + 'a) \<times> db" where
  "withTransaction s fn =
     (case fn s of
        Inl e \<Rightarrow> (Inl e, s)
      | Inr (result, s') \<Rightarrow> (Inr result, s'))"

subsection \<open>Dynamic permission rows\<close>

text \<open>The comparison \<open>organization_id = ?\<close> of SQL: never true against \<open>NULL\<close>.\<close>

definition sql_eq :: "string option \<Rightarrow> string option \<Rightarrow> bool" where
  "sql_eq a b = (a \<noteq> None \<and> b \<noteq> None \<and> a = b)"

text \<open>
  \<open>ORDER BY organization_id IS NULL DESC\<close>: the rows whose \<open>organization_id\<close>
  is \<open>NULL\<close> (where the expression is 1) come before the others (where it is 0).
\<close>

definition is_null_desc :: "role_permission \<Rightarrow> nat" where
  "is_null_desc r = (if rp_organization_id r = None then 0 else 1)"

definition hasRolePermission :: "db \<Rightarrow> string option \<Rightarrow> string \<Rightarrow> string \<Rightarrow> bool" where
  "hasRolePermission s organizationId role permission =
     (case get (sort_key is_null_desc
             (filter (\<lambda>r. (rp_organization_id r = None \<or> sql_eq (rp_organization_id r) organizationId)
                          \<and> rp_role r = role \<and> rp_permission r = permission)
                (role_permissions s)))
      of None \<Rightarrow> False
       | Some row \<Rightarrow> rp_enabled row = 1)"

text \<open>
  \<open>INSERT INTO role_permissions\<close>: refused on a duplicate \<open>id\<close>, on an
  \<open>organization_id\<close> that is no organization, and on a second row with the same
  non-\<open>NULL\<close> \<open>(organization_id, role, permission)\<close> (SQLite takes every
  \<open>NULL\<close> as distinct from every other under \<open>UNIQUE\<close>).
\<close>

definition insert_role_permission :: "db \<Rightarrow> role_permission \<Rightarrow> error + db" where
  "insert_role_permission s row =
     (if rp_id row \<in> set (map rp_id (role_permissions s)) then Inl SQLITE_CONSTRAINT
      else if rp_organization_id row \<noteq> None
              \<and> rp_organization_id row \<notin> set (map (\<lambda>org. Some (org_id org)) (organizations s))
        then Inl SQLITE_CONSTRAINT
      else if rp_organization_id row \<noteq> None
              \<and> (\<exists>r \<in> set (role_permissions s).
                    rp_organization_id r = rp_organization_id row
                    \<and> rp_role r = rp_role row \<and> rp_permission r = rp_permission row)
        then Inl SQLITE_CONSTRAINT
      else Inr (s\<lparr>role_permissions := role_permissions s @ [row]\<rparr>))"

text \<open>
  \<open>setRolePermission\<close>; \<open>uuid\<close> is the value of the call's \<open>uuidv4()\<close>. The
  result is the id of the row written.
\<close>

definition setRolePermission ::
  "db \<Rightarrow> string \<Rightarrow> string option \<Rightarrow> string \<Rightarrow> string \<Rightarrow> bool \<Rightarrow> (error + string) \<times> db" where
  "setRolePermission s uuid organizationId role permission enabled =
     withTransaction s (\<lambda>s.
       case get (filter (\<lambda>r. (if organizationId = None then rp_organization_id r = None
                                else sql_eq (rp_organization_id r) organizationId)
                              \<and> rp_role r = role \<and> rp_permission r = permission)
                   (role_permissions s))
       of Some existing \<Rightarrow>
            Inr (rp_id existing,
                 s\<lparr>role_permissions :=
                     map (\<lambda>r. if rp_id r = rp_id existing
                               then r\<lparr>rp_enabled := (if enabled then 1 else 0)\<rparr> else r)
                       (role_permissions s)\<rparr>)
        | None \<Rightarrow>
            (case insert_role_permission s
                    \<lparr>rp_id = uuid, rp_organization_id = organizationId, rp_role = role,
                     rp_permission = permission, rp_enabled = (if enabled then 1 else 0)\<rparr>
             of Inl e \<Rightarrow> Inl e
              | Inr s' \<Rightarrow> Inr (uuid, s')))"

section \<open>The static catalog (lib/rbac.js)\<close>

definition OWNER :: string where "OWNER = ''owner''"
definition ADMIN :: string where "ADMIN = ''admin''"
definition VIEWER :: string where "VIEWER = ''viewer''"

text \<open>
  A property read \<open>obj[key]\<close> on an object literal finds the literal's own keys and,
  failing that, the members of \<open>Object.prototype\<close>, which are functions or objects:
  truthy values that are neither arrays nor sets.
\<close>

datatype 'a property = Own 'a | Inherited | Undefined

definition Object_prototype :: "string list" where
  "Object_prototype =
     [''constructor'', ''__proto__'', ''hasOwnProperty'', ''isPrototypeOf'',
      ''propertyIsEnumerable'', ''toLocaleString'', ''toString'', ''valueOf'',
      ''__defineGetter__'', ''__defineSetter__'', ''__lookupGetter__'', ''__lookupSetter__'']"

definition lookup_property :: "(string \<times> 'a) list \<Rightarrow> string \<Rightarrow> 'a property" where
  "lookup_property obj key =
     (case map_of obj key of
        Some v \<Rightarrow> Own v
      | None \<Rightarrow> if key \<in> set Object_prototype then Inherited else Undefined)"

definition ROLE_HIERARCHY :: "(string \<times> string list) list" where
  "ROLE_HIERARCHY =
     [(OWNER, [OWNER, ADMIN, VIEWER]),
      (ADMIN, [ADMIN, VIEWER]),
      (VIEWER, [VIEWER])]"

definition PERMISSIONS :: "(string \<times> string list) list" where
  "PERMISSIONS =
     [(''tasks:view'', [OWNER, ADMIN, VIEWER]),
      (''tasks:create'', [OWNER, ADMIN]),
      (''tasks:update'', [OWNER, ADMIN]),
      (''tasks:delete'', [OWNER]),
      (''audit:view'', [OWNER, ADMIN]),
      (''users:view-all'', [OWNER, ADMIN]),
      (''categories:manage'', [OWNER, ADMIN]),
      (''categories:create'', [OWNER, ADMIN]),
      (''categories:update'', [OWNER, ADMIN]),
      (''categories:delete'', [OWNER, ADMIN]),
      (''categories:access:configure'', [OWNER]),
      (''categories:view'', [OWNER, ADMIN, VIEWER]),
      (''roles:view'', [OWNER, ADMIN]),
      (''roles:create'', [OWNER, ADMIN]),
      (''roles:update'', [OWNER, ADMIN]),
      (''roles:delete'', [OWNER])]"

definition normalizeRole :: "string \<Rightarrow> string" where
  "normalizeRole role = toLowerCase (trim role)"

text \<open>
  \<open>roleAllows\<close>. With an inherited member for \<open>allowedRoles\<close> the call
  \<open>allowedRoles.has\<close> throws as soon as \<open>some\<close> reaches a first candidate; with an
  inherited member for \<open>inherited\<close> the call \<open>inherited.some\<close> throws.
\<close>

definition roleAllows :: "string \<Rightarrow> string \<Rightarrow> error + bool" where
  "roleAllows role permission =
     (let normalized = normalizeRole role
      in case lookup_property PERMISSIONS permission of
           Undefined \<Rightarrow> Inr False
         | Inherited \<Rightarrow>
             (case lookup_property ROLE_HIERARCHY normalized of
                Undefined \<Rightarrow> Inr False
              | Inherited \<Rightarrow> Inl TypeError
              | Own inherited \<Rightarrow> if inherited = [] then Inr False else Inl TypeError)
         | Own allowedRoles \<Rightarrow>
             (case lookup_property ROLE_HIERARCHY normalized of
                Undefined \<Rightarrow> Inr False
              | Inherited \<Rightarrow> Inl TypeError
              | Own inherited \<Rightarrow> Inr (\<exists>candidate \<in> set inherited. candidate \<in> set allowedRoles)))"

section \<open>Route guards\<close>

text \<open>
  What a guard does with a request: hand it to the route (\<open>next()\<close>), answer with a
  status, or hand an error to the error handler (\<open>next(err)\<close>).
\<close>

datatype guard_result = Next | Status nat | NextError error

text \<open>The guard of the task router (routes/tasks.js).\<close>

definition guard :: "db \<Rightarrow> string \<Rightarrow> user option \<Rightarrow> guard_result" where
  "guard s permission auth_user =
     (case auth_user of
        None \<Rightarrow> Status 401
      | Some user \<Rightarrow>
          if user_role user = ''owner'' then Next
          else (case roleAllows (user_role user) permission of
                  Inl err \<Rightarrow> NextError err
                | Inr allowedStatic \<Rightarrow>
                    (let allowedDynamic = hasRolePermission s None (user_role user) permission
                     in if allowedStatic \<or> allowedDynamic then Next else Status 403)))"

text \<open>
  \<open>createPermissionGuard\<close> (lib/auth.js), the guard of the category and audit
  routers. It is synchronous and has no \<open>try\<close>: an exception leaves the middleware
  and reaches the error handler of the framework.
\<close>

definition permissionGuard :: "string \<Rightarrow> user option \<Rightarrow> guard_result" where
  "permissionGuard permission auth_user =
     (case auth_user of
        None \<Rightarrow> Status 401
      | Some user \<Rightarrow>
          (case roleAllows (user_role user) permission of
             Inl err \<Rightarrow> NextError err
           | Inr allowed \<Rightarrow> if \<not> allowed then Status 403 else Next))"

text \<open>The access guard of the admin router (routes/admin.js).\<close>

definition adminGuard :: "db \<Rightarrow> user option \<Rightarrow> guard_result" where
  "adminGuard s auth_user =
     (case auth_user of
        None \<Rightarrow> Status 401
      | Some user \<Rightarrow>
          if user_role user = OWNER then Next
          else (let allowed = hasRolePermission s None (user_role user) ''admin:access''
                in if \<not> allowed then Status 403 else Next))"

section \<open>Organization scope (lib/rbac.js)\<close>

text \<open>
  \<open>buildOrgIndex\<close>: two \<open>Map\<close>s filled in one pass over the organizations, kept as
  association lists in insertion order; a \<open>set\<close> on a key already there replaces
  its value in place.
\<close>

definition Map_set :: "('k \<times> 'v) list \<Rightarrow> 'k \<Rightarrow> 'v \<Rightarrow> ('k \<times> 'v) list" where
  "Map_set m k v =
     (if k \<in> set (map fst m) then map (\<lambda>(k', v'). if k' = k then (k', v) else (k', v')) m
      else m @ [(k, v)])"

definition buildOrgIndex ::
  "organization list
     \<Rightarrow> (string \<times> organization) list \<times> (string option \<times> organization list) list" where
  "buildOrgIndex orgs =
     foldl (\<lambda>(byId, children) org.
              (Map_set byId (org_id org) org,
               (let key = or_null (org_parent_id org);
                    children' = (if key \<notin> set (map fst children)
                                 then Map_set children key [] else children)
                in Map_set children' key
                     ((case map_of children' key of None \<Rightarrow> [] | Some l \<Rightarrow> l) @ [org]))))
       ([], []) orgs"

text \<open>
  \<open>collectDescendants\<close>: the loop over the queue, with the set \<open>acc\<close> of the
  organizations already visited.
\<close>

function collectDescendants_loop ::
  "(string option \<times> organization list) list \<Rightarrow> string list \<Rightarrow> string list \<Rightarrow> string list" where
  "collectDescendants_loop childrenMap [] acc = acc"
| "collectDescendants_loop childrenMap (current # queue) acc =
     (if current = [] \<or> current \<in> set acc
      then collectDescendants_loop childrenMap queue acc
      else (let childList = (case map_of childrenMap (Some current) of
                               None \<Rightarrow> [] | Some l \<Rightarrow> l)
            in collectDescendants_loop childrenMap (queue @ map org_id childList)
                 (set_add acc current)))"
  by pat_completeness auto
termination
proof (relation
    "(\<lambda>(childrenMap, queue, acc). card (set (map fst childrenMap) - Some ` set acc))
       <*mlex*> measure (\<lambda>(childrenMap, queue, acc). length queue)")
  show "wf ((\<lambda>(childrenMap, queue, acc). card (set (map fst childrenMap) - Some ` set acc))
       <*mlex*> measure (\<lambda>(childrenMap :: (string option \<times> organization list) list,
                              queue :: string list, acc :: string list). length queue))"
    by (simp add: wf_mlex)
next
  fix childrenMap :: "(string option \<times> organization list) list"
    and current :: string and queue acc :: "string list"
  assume "current = [] \<or> current \<in> set acc"
  show "((childrenMap, queue, acc), (childrenMap, current # queue, acc))
        \<in> (\<lambda>(childrenMap, queue, acc). card (set (map fst childrenMap) - Some ` set acc))
            <*mlex*> measure (\<lambda>(childrenMap, queue, acc). length queue)"
    by (simp add: mlex_iff)
next
  fix childrenMap :: "(string option \<times> organization list) list"
    and current :: string and queue acc :: "string list" and childList
  assume fresh: "\<not> (current = [] \<or> current \<in> set acc)"
    and cl: "childList = (case map_of childrenMap (Some current) of None \<Rightarrow> [] | Some l \<Rightarrow> l)"
  let ?K = "set (map fst childrenMap)"
  have acc': "set (set_add acc current) = insert current (set acc)"
    using fresh by (simp add: set_add_def)
  show "((childrenMap, queue @ map org_id childList, set_add acc current),
         (childrenMap, current # queue, acc))
        \<in> (\<lambda>(childrenMap, queue, acc). card (set (map fst childrenMap) - Some ` set acc))
            <*mlex*> measure (\<lambda>(childrenMap, queue, acc). length queue)"
  proof (cases "map_of childrenMap (Some current)")
    case None
    then have "Some current \<notin> ?K"
      by (simp add: map_of_eq_None_iff)
    then have "?K - Some ` insert current (set acc) = ?K - Some ` set acc"
      by auto
    with None cl acc' show ?thesis
      by (simp add: mlex_iff)
  next
    case (Some l)
    then have "Some current \<in> ?K"
      by (metis map_of_eq_None_iff option.distinct(1) set_map)
    moreover have "Some current \<notin> Some ` set acc"
      using fresh by auto
    ultimately have "?K - Some ` insert current (set acc) \<subset> ?K - Some ` set acc"
      by auto
    then have "card (?K - Some ` insert current (set acc)) < card (?K - Some ` set acc)"
      by (simp add: psubset_card_mono)
    with acc' show ?thesis
      by (simp add: mlex_iff)
  qed
qed

definition collectDescendants ::
  "string \<Rightarrow> (string option \<times> organization list) list \<Rightarrow> string list \<Rightarrow> string list" where
  "collectDescendants ident childrenMap acc = collectDescendants_loop childrenMap [ident] acc"

definition resolveOrgScopeForUser :: "user option \<Rightarrow> organization list \<Rightarrow> string list" where
  "resolveOrgScopeForUser auth_user orgs =
     (case auth_user of
        None \<Rightarrow> []
      | Some user \<Rightarrow>
          (let normalizedRole = normalizeRole (user_role user);
               (byId, children) = buildOrgIndex orgs
           in case (case or_null (user_organization_id user) of
                      Some v \<Rightarrow> Some v
                    | None \<Rightarrow> or_null (user_organizationId user))
              of None \<Rightarrow> []
               | Some userOrgId \<Rightarrow>
                   (let scope = set_add [] userOrgId;
                        orgRecord = map_of byId userOrgId;
                        isRoot = (case orgRecord of
                                    None \<Rightarrow> True
                                  | Some r \<Rightarrow> or_null (org_parent_id r) = None)
                    in if normalizedRole = OWNER
                       then foldl (\<lambda>scope o'. set_add scope (org_id o')) scope orgs
                       else if normalizedRole = ADMIN
                       then (if isRoot then collectDescendants userOrgId children scope
                             else scope)
                       else scope)))"

section \<open>Category access (lib/database.js)\<close>

text \<open>
  \<open>listCategoryRoleAccess\<close>: the roles of a category's access rows,
  \<open>ORDER BY role ASC\<close>.
\<close>

definition listCategoryRoleAccess :: "db \<Rightarrow> string \<Rightarrow> string list" where
  "listCategoryRoleAccess s categoryId =
     map cra_role
       (sort_key cra_role
          (filter (\<lambda>r. cra_category_id r = categoryId) (category_role_access s)))"

text \<open>
  \<open>INSERT INTO category_role_access\<close>: refused on a duplicate \<open>id\<close>, on a
  \<open>category_id\<close> that is no category, and on a second row with the same
  \<open>(category_id, role)\<close>.
\<close>

definition insert_category_role_access :: "db \<Rightarrow> category_role_access_row \<Rightarrow> error + db" where
  "insert_category_role_access s row =
     (if cra_id row \<in> set (map cra_id (category_role_access s)) then Inl SQLITE_CONSTRAINT
      else if cra_category_id row \<notin> set (map cat_id (categories s)) then Inl SQLITE_CONSTRAINT
      else if (\<exists>r \<in> set (category_role_access s).
                 cra_category_id r = cra_category_id row \<and> cra_role r = cra_role row)
        then Inl SQLITE_CONSTRAINT
      else Inr (s\<lparr>category_role_access := category_role_access s @ [row]\<rparr>))"

text \<open>
  The loop \<open>for (const role of uniqueRoles)\<close> of \<open>setCategoryRoleAccess\<close>;
  \<open>uuidv4 i\<close> is the value of the \<open>i\<close>-th call of \<open>uuidv4()\<close>.
\<close>

fun insert_uniqueRoles :: "db \<Rightarrow> (nat \<Rightarrow> string) \<Rightarrow> nat \<Rightarrow> string \<Rightarrow> string list \<Rightarrow> error + db" where
  "insert_uniqueRoles s uuidv4 i categoryId [] = Inr s"
| "insert_uniqueRoles s uuidv4 i categoryId (role # rest) =
     (case insert_category_role_access s
             \<lparr>cra_id = uuidv4 i, cra_category_id = categoryId, cra_role = role\<rparr>
      of Inl e \<Rightarrow> Inl e
       | Inr s' \<Rightarrow> insert_uniqueRoles s' uuidv4 (Suc i) categoryId rest)"

definition uniqueRoles_of :: "string list \<Rightarrow> string list" where
  "uniqueRoles_of roles_arg =
     new_Set (filter (\<lambda>r. r \<noteq> []) (map (\<lambda>r. toLowerCase (trim r)) roles_arg))"

definition setCategoryRoleAccess ::
  "db \<Rightarrow> (nat \<Rightarrow> string) \<Rightarrow> string \<Rightarrow> string list \<Rightarrow> (error + string list) \<times> db" where
  "setCategoryRoleAccess s uuidv4 categoryId roles_arg =
     (let uniqueRoles = uniqueRoles_of roles_arg
      in withTransaction s (\<lambda>s.
           let s1 = s\<lparr>category_role_access :=
                       filter (\<lambda>r. cra_category_id r \<noteq> categoryId) (category_role_access s)\<rparr>
           in case insert_uniqueRoles s1 uuidv4 0 categoryId uniqueRoles of
                Inl e \<Rightarrow> Inl e
              | Inr s2 \<Rightarrow> Inr (listCategoryRoleAccess s2 categoryId, s2)))"

text \<open>
  \<open>listAccessibleCategoriesForRole\<close>. Each category is joined (\<open>LEFT JOIN\<close>) with
  the number of its access rows, \<open>NULL\<close> when it has none, and with its access rows
  for the role, one joined row for each and one with \<open>NULL\<close>s when there is none.
\<close>

definition listAccessibleCategoriesForRole :: "db \<Rightarrow> string list \<Rightarrow> string \<Rightarrow> category list" where
  "listAccessibleCategoriesForRole s orgIds role =
     (if orgIds = [] then []
      else
        (let joined =
               concat (map (\<lambda>c.
                  let n = length (filter (\<lambda>a. cra_category_id a = cat_id c)
                                    (category_role_access s));
                      counts_cnt = (if n = 0 then None else Some n);
                      cra = filter (\<lambda>a. cra_category_id a = cat_id c \<and> cra_role a = role)
                              (category_role_access s)
                  in map (\<lambda>a. (c, counts_cnt, a)) (if cra = [] then [None] else map Some cra))
                (categories s))
         in map fst
              (sort_key (\<lambda>(c, counts_cnt, cra). cat_name c)
                 (filter (\<lambda>(c, counts_cnt, cra).
                            cat_organization_id c \<in> set orgIds
                            \<and> ((counts_cnt = None \<and> cat_is_system c = 1) \<or> cra \<noteq> None))
                    joined))))"

section \<open>Task listing (routes/tasks.js)\<close>

text \<open>
  The \<open>LIKE\<close> of SQLite: \<open>%\<close> stands for any run of characters, \<open>_\<close> for one
  character, and \<open>A\<close>..\<open>Z\<close> match their lower-case forms.
\<close>

fun sql_like :: "string \<Rightarrow> string \<Rightarrow> bool" where
  "sql_like [] text = (text = [])"
| "sql_like (p # ps) [] = (p = CHR ''%'' \<and> sql_like ps [])"
| "sql_like (p # ps) (c # cs) =
     (if p = CHR ''%'' then sql_like ps (c # cs) \<or> sql_like (p # ps) cs
      else (p = CHR ''_'' \<or> sql_lower_char p = sql_lower_char c) \<and> sql_like ps cs)"

text \<open>The query string of the request; a parameter that is no string counts as absent.\<close>

record task_query =
  query_status :: "string option"
  query_category :: "string option"
  query_search :: "string option"
  query_assignedTo :: "string option"
  query_orderBy :: "string option"

record task_filters =
  filters_status :: "string option"
  filters_category :: "string option"
  filters_search :: "string option"
  filters_assignedTo :: "string option"
  filters_orderBy :: "string option"

definition trimmed_or_absent :: "string option \<Rightarrow> string option" where
  "trimmed_or_absent q =
     (case q of None \<Rightarrow> None | Some v \<Rightarrow> if trim v \<noteq> [] then Some (trim v) else None)"

definition normalizeTaskFilters :: "task_query \<Rightarrow> task_filters" where
  "normalizeTaskFilters query =
     \<lparr>filters_status = trimmed_or_absent (query_status query),
      filters_category = trimmed_or_absent (query_category query),
      filters_search = trimmed_or_absent (query_search query),
      filters_assignedTo = trimmed_or_absent (query_assignedTo query),
      filters_orderBy =
        (case query_orderBy query of
           None \<Rightarrow> None
         | Some v \<Rightarrow> if v \<in> set [''dueDate'', ''position''] then Some v else None)\<rparr>"

text \<open>
  \<open>listTasksForOrganizations\<close>: the clauses of the \<open>WHERE\<close>, one for each filter
  that is truthy, then the \<open>ORDER BY\<close>. The joined names of creator and assignee
  play no part in filtering and are left out of the rows.
\<close>

definition listTasksForOrganizations :: "db \<Rightarrow> string list \<Rightarrow> task_filters \<Rightarrow> task list" where
  "listTasksForOrganizations s orgIds filters =
     (if orgIds = [] then []
      else
        (let clauses = (\<lambda>t.
               task_organization_id t \<in> set orgIds
               \<and> (case or_null (filters_status filters) of
                    None \<Rightarrow> True | Some v \<Rightarrow> task_status t = v)
               \<and> (case or_null (filters_category filters) of
                    None \<Rightarrow> True | Some v \<Rightarrow> task_category t = Some v)
               \<and> (case or_null (filters_search filters) of
                    None \<Rightarrow> True
                  | Some v \<Rightarrow>
                      sql_like (''%'' @ v @ ''%'') (task_title t)
                      \<or> (case task_description t of
                            None \<Rightarrow> False
                          | Some d \<Rightarrow> sql_like (''%'' @ v @ ''%'') d))
               \<and> (case or_null (filters_assignedTo filters) of
                    None \<Rightarrow> True | Some v \<Rightarrow> task_assigned_to t = Some v))
         in if filters_orderBy filters = Some ''dueDate''
            then sort_key (\<lambda>t. case task_due_date t of
                                  None \<Rightarrow> (1 :: nat, 0 :: int)
                                | Some d \<Rightarrow> (0, d))
                   (filter clauses (tasks s))
            else sort_key (\<lambda>t. (task_position t, task_created_at t))
                   (filter clauses (tasks s))))"

record request =
  auth_user :: "user option"
  auth_orgScope :: "string list"
  req_query :: task_query

datatype 'a response = Json 'a | Error_status nat | Internal_error error

text \<open>
  \<open>GET /\<close> of the task router, behind \<open>guard('tasks:view')\<close>. Reading
  \<open>user.id\<close> of a missing user throws; the guard has answered 401 before.
\<close>

definition tasks_get :: "db \<Rightarrow> request \<Rightarrow> task list response" where
  "tasks_get s req =
     (case guard s ''tasks:view'' (auth_user req) of
        Status code \<Rightarrow> Error_status code
      | NextError err \<Rightarrow> Internal_error err
      | Next \<Rightarrow>
          (case auth_user req of
             None \<Rightarrow> Internal_error TypeError
           | Some user \<Rightarrow>
               (let filters = normalizeTaskFilters (req_query req);
                    orgScope = auth_orgScope req;
                    tasks1 = listTasksForOrganizations s orgScope filters;
                    tasks2 = filter (\<lambda>t. if task_category t = Some ''Personal''
                                          then task_created_by t = Some (user_id user)
                                          else True) tasks1;
                    tasks3 =
                      (if user_role user \<noteq> ''owner''
                       then (let cats = listAccessibleCategoriesForRole s orgScope (user_role user);
                                 allowedCategoryNames = new_Set (map cat_name cats)
                             in filter (\<lambda>t. task_category t = Some ''Personal''
                                             \<or> (\<exists>n \<in> set allowedCategoryNames.
                                                   task_category t = Some n)) tasks2)
                       else tasks2)
                in Json tasks3)))"

section \<open>Role lifecycle (lib/database.js)\<close>

definition getRoleByName :: "db \<Rightarrow> string \<Rightarrow> role_row option" where
  "getRoleByName s name = get (filter (\<lambda>r. sql_lower (role_name r) = sql_lower name) (roles s))"

text \<open>The \<open>description\<close> field of an update: left out, \<open>null\<close>, or a string.\<close>

datatype description_arg = Description_undefined | Description_null | Description string

text \<open>
  \<open>UPDATE roles SET name = ? WHERE id = ?\<close> is refused when another row bears the
  name (\<open>name\<close> is \<open>UNIQUE\<close>); \<open>UPDATE role_permissions SET role = ? WHERE role = ?\<close>
  is refused when a row it renames meets a row of the new role with the same
  permission in the same organization.
\<close>

definition update_roles_name :: "db \<Rightarrow> string \<Rightarrow> string \<Rightarrow> error + db" where
  "update_roles_name s name ident =
     (if ident \<in> set (map role_id (roles s))
         \<and> (\<exists>r \<in> set (roles s). role_id r \<noteq> ident \<and> role_name r = name)
      then Inl SQLITE_CONSTRAINT
      else Inr (s\<lparr>roles := map (\<lambda>r. if role_id r = ident then r\<lparr>role_name := name\<rparr> else r)
                               (roles s)\<rparr>))"

definition update_users_role :: "db \<Rightarrow> string \<Rightarrow> string \<Rightarrow> db" where
  "update_users_role s new old =
     s\<lparr>users := map (\<lambda>u. if user_role u = old then u\<lparr>user_role := new\<rparr> else u) (users s)\<rparr>"

definition update_role_permissions_role :: "db \<Rightarrow> string \<Rightarrow> string \<Rightarrow> error + db" where
  "update_role_permissions_role s new old =
     (if \<exists>r1 \<in> set (role_permissions s). \<exists>r2 \<in> set (role_permissions s).
           rp_role r1 = old \<and> rp_role r2 = new \<and> new \<noteq> old
           \<and> rp_organization_id r1 \<noteq> None
           \<and> rp_organization_id r1 = rp_organization_id r2
           \<and> rp_permission r1 = rp_permission r2
      then Inl SQLITE_CONSTRAINT
      else Inr (s\<lparr>role_permissions :=
                    map (\<lambda>r. if rp_role r = old then r\<lparr>rp_role := new\<rparr> else r)
                      (role_permissions s)\<rparr>))"

definition update_roles_description :: "db \<Rightarrow> string option \<Rightarrow> string \<Rightarrow> db" where
  "update_roles_description s description ident =
     s\<lparr>roles := map (\<lambda>r. if role_id r = ident then r\<lparr>role_description := description\<rparr> else r)
                  (roles s)\<rparr>"

definition updateRole ::
  "db \<Rightarrow> string \<Rightarrow> string option \<Rightarrow> description_arg \<Rightarrow> (error + role_row option) \<times> db" where
  "updateRole s oldName name description =
     (case getRoleByName s oldName of
        None \<Rightarrow> (Inl RoleNotFound, s)
      | Some existing \<Rightarrow>
          if role_is_system existing \<noteq> 0 then (Inl CannotModifySystemRole, s)
          else
            (let updates_name = (case name of
                                   None \<Rightarrow> None
                                 | Some n \<Rightarrow> Some (toLowerCase (trim n)))
             in withTransaction s (\<lambda>s.
                  case (if or_null updates_name \<noteq> None
                           \<and> updates_name \<noteq> Some (role_name existing)
                        then (case update_roles_name s (the updates_name) (role_id existing) of
                                Inl e \<Rightarrow> Inl e
                              | Inr s1 \<Rightarrow>
                                  update_role_permissions_role
                                    (update_users_role s1 (the updates_name) (role_name existing))
                                    (the updates_name) (role_name existing))
                        else Inr s)
                  of Inl e \<Rightarrow> Inl e
                   | Inr s2 \<Rightarrow>
                       (let s3 = (case description of
                                    Description_undefined \<Rightarrow> s2
                                  | Description_null \<Rightarrow>
                                      update_roles_description s2 None (role_id existing)
                                  | Description d \<Rightarrow>
                                      update_roles_description s2 (or_null (Some d))
                                        (role_id existing))
                        in Inr (getRoleByName s3
                                  (case or_null updates_name of
                                     Some n \<Rightarrow> n
                                   | None \<Rightarrow> role_name existing),
                                s3)))))"

definition deleteRole :: "db \<Rightarrow> string \<Rightarrow> (error + bool) \<times> db" where
  "deleteRole s name =
     (case getRoleByName s name of
        None \<Rightarrow> (Inl RoleNotFound, s)
      | Some existing \<Rightarrow>
          if role_is_system existing \<noteq> 0 then (Inl CannotDeleteSystemRole, s)
          else
            (let usage_cnt = length (filter (\<lambda>u. user_role u = role_name existing) (users s))
             in if usage_cnt > 0 then (Inl ROLE_IN_USE, s)
                else
                  (case withTransaction s (\<lambda>s.
                          Inr ((),
                               s\<lparr>role_permissions :=
                                    filter (\<lambda>r. rp_role r \<noteq> role_name existing)
                                      (role_permissions s),
                                  roles := filter (\<lambda>r. role_id r \<noteq> role_id existing) (roles s)\<rparr>))
                   of (Inl e, s') \<Rightarrow> (Inl e, s')
                    | (Inr u, s') \<Rightarrow> (Inr True, s'))))"




text \<open>
  The rows that the loop of \<open>setCategoryRoleAccess\<close> writes for a list of roles,
  the \<open>i\<close>-th identifier first.
\<close>

fun new_access_rows :: "(nat \<Rightarrow> string) \<Rightarrow> nat \<Rightarrow> string \<Rightarrow> string list \<Rightarrow> category_role_access_row list" where
  "new_access_rows uuidv4 i categoryId [] = []"
| "new_access_rows uuidv4 i categoryId (role # rest) =
     \<lparr>cra_id = uuidv4 i, cra_category_id = categoryId, cra_role = role\<rparr>
       # new_access_rows uuidv4 (Suc i) categoryId rest"

section \<open>Example data\<close>

text \<open>
  A store with the organization tree of one root and two children, the three system
  roles and the custom roles \<open>editor\<close>, \<open>intern\<close> and \<open>auditor\<close>, used to run the operations on
  concrete inputs.
\<close>

definition example_organizations :: "organization list" where
  "example_organizations =
     [\<lparr>org_id = ''org-root'', org_name = ''Acme'', org_parent_id = None\<rparr>,
      \<lparr>org_id = ''org-a'', org_name = ''Acme East'', org_parent_id = Some ''org-root''\<rparr>,
      \<lparr>org_id = ''org-b'', org_name = ''Acme West'', org_parent_id = Some ''org-root''\<rparr>]"

definition mk_user :: "string \<Rightarrow> string \<Rightarrow> string \<Rightarrow> user" where
  "mk_user ident org role =
     \<lparr>user_id = ident, user_organization_id = Some org, user_organizationId = None,
      user_role = role, user_is_active = 1\<rparr>"

definition mk_task :: "string \<Rightarrow> string \<Rightarrow> string \<Rightarrow> string \<Rightarrow> int \<Rightarrow> task" where
  "mk_task ident org cat creator pos =
     \<lparr>task_id = ident, task_organization_id = org, task_title = ''Plan'',
      task_description = None, task_status = ''todo'', task_category = Some cat,
      task_priority = Some ''medium'', task_due_date = None, task_position = pos,
      task_created_by = Some creator, task_assigned_to = None, task_created_at = 0\<rparr>"

definition example_db :: db where
  "example_db =
     \<lparr>organizations = example_organizations,
      users = [mk_user ''u-owner'' ''org-root'' ''owner'',
               mk_user ''u-admin'' ''org-root'' ''admin'',
               mk_user ''u-viewer'' ''org-root'' ''viewer'',
               mk_user ''u-editor'' ''org-a'' ''editor''],
      tasks = [mk_task ''t-1'' ''org-root'' ''Work'' ''u-owner'' 1,
               mk_task ''t-2'' ''org-root'' ''Personal'' ''u-admin'' 2,
               mk_task ''t-3'' ''org-root'' ''Personal'' ''u-viewer'' 3,
               mk_task ''t-4'' ''org-root'' ''Plans'' ''u-admin'' 4],
      categories =
        [\<lparr>cat_id = ''c-work'', cat_organization_id = ''org-root'', cat_name = ''Work'',
          cat_is_system = 1, cat_created_at = 0\<rparr>,
         \<lparr>cat_id = ''c-personal'', cat_organization_id = ''org-root'', cat_name = ''Personal'',
          cat_is_system = 1, cat_created_at = 0\<rparr>,
         \<lparr>cat_id = ''c-plans'', cat_organization_id = ''org-root'', cat_name = ''Plans'',
          cat_is_system = 0, cat_created_at = 1\<rparr>,
         \<lparr>cat_id = ''c-misc'', cat_organization_id = ''org-root'', cat_name = ''Misc'',
          cat_is_system = 0, cat_created_at = 2\<rparr>],
      category_role_access =
        [\<lparr>cra_id = ''a-1'', cra_category_id = ''c-plans'', cra_role = ''admin''\<rparr>],
      role_permissions =
        [\<lparr>rp_id = ''rp-1'', rp_organization_id = None, rp_role = ''admin'',
          rp_permission = ''admin:access'', rp_enabled = 1\<rparr>,
         \<lparr>rp_id = ''rp-2'', rp_organization_id = None, rp_role = ''editor'',
          rp_permission = ''categories:create'', rp_enabled = 1\<rparr>,
         \<lparr>rp_id = ''rp-3'', rp_organization_id = Some ''org-a'', rp_role = ''editor'',
          rp_permission = ''tasks:delete'', rp_enabled = 1\<rparr>,
         \<lparr>rp_id = ''rp-4'', rp_organization_id = None, rp_role = ''editor'',
          rp_permission = ''tasks:delete'', rp_enabled = 0\<rparr>,
         \<lparr>rp_id = ''rp-5'', rp_organization_id = None, rp_role = ''auditor'',
          rp_permission = ''audit:view'', rp_enabled = 1\<rparr>],
      roles =
        [\<lparr>role_id = ''r-owner'', role_name = ''owner'',
          role_description = Some ''Full control of the organization'', role_is_system = 1\<rparr>,
         \<lparr>role_id = ''r-admin'', role_name = ''admin'',
          role_description = Some ''Manage users and settings'', role_is_system = 1\<rparr>,
         \<lparr>role_id = ''r-viewer'', role_name = ''viewer'',
          role_description = Some ''Read-only access'', role_is_system = 1\<rparr>,
         \<lparr>role_id = ''r-editor'', role_name = ''editor'',
          role_description = None, role_is_system = 0\<rparr>,
         \<lparr>role_id = ''r-intern'', role_name = ''intern'',
          role_description = None, role_is_system = 0\<rparr>,
         \<lparr>role_id = ''r-auditor'', role_name = ''auditor'',
          role_description = None, role_is_system = 0\<rparr>]\<rparr>"

definition example_request :: "string \<Rightarrow> string \<Rightarrow> request" where
  "example_request ident role =
     \<lparr>auth_user = Some (mk_user ident ''org-root'' role),
      auth_orgScope = [''org-root''],
      req_query = \<lparr>query_status = None, query_category = None, query_search = None,
                   query_assignedTo = None, query_orderBy = None\<rparr>\<rparr>"

definition example_editor_role :: role_row where
  "example_editor_role =
     \<lparr>role_id = ''r-editor'', role_name = ''editor'', role_description = None, role_is_system = 0\<rparr>"

definition example_auditor_role :: role_row where
  "example_auditor_role =
     \<lparr>role_id = ''r-auditor'', role_name = ''auditor'', role_description = None,
      role_is_system = 0\<rparr>"

definition example_uuidv4 :: "nat \<Rightarrow> string" where
  "example_uuidv4 i = ''a-new-'' @ replicate i (CHR ''x'')"


section \<open>Properties of the route guards\<close>

text \<open>
  When \<open>roleAllows\<close> returns, the guard of the task routes allows on the static
  entitlement or the dynamic grant, the guard of \<open>createPermissionGuard\<close> on the
  static entitlement alone.
\<close>

lemma guard_allows_iff:
  assumes "user_role user \<noteq> ''owner''"
    and "roleAllows (user_role user) permission = Inr allowedStatic"
  shows "guard s permission (Some user) = Next
         \<longleftrightarrow> allowedStatic \<or> hasRolePermission s None (user_role user) permission"
  using assms by (simp add: guard_def Let_def)

lemma permissionGuard_allows_iff:
  assumes "roleAllows (user_role user) permission = Inr allowedStatic"
  shows "permissionGuard permission (Some user) = Next \<longleftrightarrow> allowedStatic"
  using assms by (simp add: permissionGuard_def)

text \<open>
  C8. For every two states of the dynamic permission store, and in particular before
  and after \<open>setRolePermission(null, 'owner', 'tasks:delete', false)\<close>, the guard of
  the task routes and the access guard of the admin routes let a user whose role is
  \<open>owner\<close> through, for every permission: the decision reads no stored row.
\<close>

theorem owner_allowed_whatever_the_store:
  "user_role user = ''owner'' \<Longrightarrow>
     guard s permission (Some user) = Next
     \<and> guard s' permission (Some user) = Next
     \<and> guard (snd (setRolePermission s uuid None ''owner'' ''tasks:delete'' False))
         ''tasks:delete'' (Some user) = Next
     \<and> adminGuard s (Some user) = Next
     \<and> adminGuard s' (Some user) = Next"
  by (simp add: guard_def adminGuard_def OWNER_def)

theorem owner_allowed_whatever_the_store_witness:
  "guard example_db ''tasks:delete'' (Some (mk_user ''u-owner'' ''org-root'' ''owner'')) = Next
   \<and> guard (snd (setRolePermission example_db ''rp-9'' None ''owner'' ''tasks:delete'' False))
       ''tasks:delete'' (Some (mk_user ''u-owner'' ''org-root'' ''owner'')) = Next
   \<and> adminGuard example_db (Some (mk_user ''u-owner'' ''org-root'' ''owner'')) = Next"
  using owner_allowed_whatever_the_store
    [of "mk_user ''u-owner'' ''org-root'' ''owner''" example_db "''tasks:delete''" example_db "''rp-9''"]
  by (simp add: mk_user_def)

text \<open>
  C1. The guard of the task routes allows on a static entitlement or a dynamic grant;
  the guard of the category routes reads the static catalog only. The custom role
  \<open>editor\<close> holds the dynamic grant \<open>categories:create\<close> and no static entitlement:
  the task guard would let it through, the guard of \<open>POST /categories\<close> answers 403.
\<close>

theorem category_guard_ignores_dynamic_grant:
  "hasRolePermission example_db None ''editor'' ''categories:create'' = True
   \<and> roleAllows ''editor'' ''categories:create'' = Inr False
   \<and> guard example_db ''categories:create'' (Some (mk_user ''u-editor'' ''org-a'' ''editor'')) = Next
   \<and> permissionGuard ''categories:create'' (Some (mk_user ''u-editor'' ''org-a'' ''editor''))
       = Status 403"
  by code_simp

section \<open>Properties of the dynamic permission store\<close>

lemma sort_key_hd_min:
  assumes "x \<in> set xs"
  shows "\<exists>h rest. sort_key k xs = h # rest \<and> h \<in> set xs \<and> k h \<le> k x"
proof -
  from assms have ne: "sort_key k xs \<noteq> []"
    by (metis empty_iff list.set(1) set_sort)
  then obtain h rest where hr: "sort_key k xs = h # rest"
    by (cases "sort_key k xs") auto
  have "sorted (map k (sort_key k xs))" by (rule sorted_sort_key)
  with hr have "\<forall>y \<in> set rest. k h \<le> k y" by simp
  moreover have "x \<in> set (h # rest)" using assms hr by (metis set_sort)
  moreover have "h \<in> set xs" using hr by (metis list.set_intros(1) set_sort)
  ultimately show ?thesis using hr by auto
qed














text \<open>
  C2, as stated, fails: the store holds for \<open>(editor, tasks:delete)\<close> a row of
  organization \<open>org-a\<close> that is enabled and a global row that is disabled, and
  \<open>hasRolePermission\<close> called with \<open>org-a\<close> does not return the value of the
  organization's row.
\<close>

theorem hasRolePermission_org_row_counterexample:
  "\<lparr>rp_id = ''rp-3'', rp_organization_id = Some ''org-a'', rp_role = ''editor'',
     rp_permission = ''tasks:delete'', rp_enabled = 1\<rparr> \<in> set (role_permissions example_db)
   \<and> \<lparr>rp_id = ''rp-4'', rp_organization_id = None, rp_role = ''editor'',
       rp_permission = ''tasks:delete'', rp_enabled = 0\<rparr> \<in> set (role_permissions example_db)
   \<and> hasRolePermission example_db (Some ''org-a'') ''editor'' ''tasks:delete'' \<noteq> True"
  by code_simp

text \<open>
  C2, amended. When a global row exists for \<open>(r, p)\<close> (and is the only global row
  for it), \<open>hasRolePermission\<close> returns that row's \<open>enabled\<close> value, whatever
  organization id it is called with and whatever row of that organization exists:
  the global row is preferred. When no row matches the query, the result is false.
\<close>

theorem hasRolePermission_prefers_global_row:
  "(g \<in> set (role_permissions s) \<and> rp_organization_id g = None
      \<and> rp_role g = role \<and> rp_permission g = permission
      \<and> (\<forall>g' \<in> set (role_permissions s).
            rp_organization_id g' = None \<and> rp_role g' = role \<and> rp_permission g' = permission
            \<longrightarrow> g' = g) \<longrightarrow>
      hasRolePermission s organizationId role permission = (rp_enabled g = 1))
   \<and> ((\<forall>r \<in> set (role_permissions s).
          \<not> ((rp_organization_id r = None \<or> rp_organization_id r = organizationId)
              \<and> rp_role r = role \<and> rp_permission r = permission)) \<longrightarrow>
        hasRolePermission s organizationId role permission = False)"
proof (intro conjI impI)
  let ?Q = "\<lambda>r. (rp_organization_id r = None \<or> sql_eq (rp_organization_id r) organizationId)
                 \<and> rp_role r = role \<and> rp_permission r = permission"
  assume a: "g \<in> set (role_permissions s) \<and> rp_organization_id g = None
      \<and> rp_role g = role \<and> rp_permission g = permission
      \<and> (\<forall>g' \<in> set (role_permissions s).
            rp_organization_id g' = None \<and> rp_role g' = role \<and> rp_permission g' = permission
            \<longrightarrow> g' = g)"
  then have "g \<in> set (filter ?Q (role_permissions s))" by simp
  from sort_key_hd_min [OF this, of is_null_desc]
  obtain h rest where hr: "sort_key is_null_desc (filter ?Q (role_permissions s)) = h # rest"
    and hin: "h \<in> set (filter ?Q (role_permissions s))"
    and hle: "is_null_desc h \<le> is_null_desc g" by blast
  from a have gnull: "rp_organization_id g = None" by blast
  from a have uniq: "\<forall>g' \<in> set (role_permissions s).
            rp_organization_id g' = None \<and> rp_role g' = role \<and> rp_permission g' = permission
            \<longrightarrow> g' = g" by blast
  from hle gnull have hnull: "rp_organization_id h = None"
    by (simp add: is_null_desc_def split: if_splits)
  from hin have "h \<in> set (role_permissions s)" "rp_role h = role" "rp_permission h = permission"
    by simp_all
  with hnull uniq have "h = g" by blast
  with hr show "hasRolePermission s organizationId role permission = (rp_enabled g = 1)"
    by (simp add: hasRolePermission_def get_def)
next
  assume "\<forall>r \<in> set (role_permissions s).
          \<not> ((rp_organization_id r = None \<or> rp_organization_id r = organizationId)
              \<and> rp_role r = role \<and> rp_permission r = permission)"
  then have "filter (\<lambda>r. (rp_organization_id r = None \<or> sql_eq (rp_organization_id r) organizationId)
                 \<and> rp_role r = role \<and> rp_permission r = permission) (role_permissions s) = []"
    by (auto simp: filter_empty_conv sql_eq_def)
  then show "hasRolePermission s organizationId role permission = False"
    by (simp add: hasRolePermission_def get_def)
qed

theorem hasRolePermission_prefers_global_row_witness:
  "\<lparr>rp_id = ''rp-3'', rp_organization_id = Some ''org-a'', rp_role = ''editor'',
     rp_permission = ''tasks:delete'', rp_enabled = 1\<rparr> \<in> set (role_permissions example_db)
   \<and> \<lparr>rp_id = ''rp-4'', rp_organization_id = None, rp_role = ''editor'',
       rp_permission = ''tasks:delete'', rp_enabled = 0\<rparr> \<in> set (role_permissions example_db)
   \<and> hasRolePermission example_db (Some ''org-a'') ''editor'' ''tasks:delete'' = False
   \<and> hasRolePermission example_db (Some ''org-a'') ''viewer'' ''tasks:delete'' = False"
  using hasRolePermission_prefers_global_row
      [of "\<lparr>rp_id = ''rp-4'', rp_organization_id = None, rp_role = ''editor'',
             rp_permission = ''tasks:delete'', rp_enabled = 0\<rparr>"
          example_db "''editor''" "''tasks:delete''" "Some ''org-a''"]
    hasRolePermission_prefers_global_row
      [of "\<lparr>rp_id = ''rp-4'', rp_organization_id = None, rp_role = ''editor'',
             rp_permission = ''tasks:delete'', rp_enabled = 0\<rparr>"
          example_db "''viewer''" "''tasks:delete''" "Some ''org-a''"]
  by (simp add: example_db_def)

section \<open>Properties of the organization scope\<close>

text \<open>
  C3. The scope of an \<open>admin\<close> whose organization is the root of a tree with two
  children: \<open>resolveOrgScopeForUser\<close> returns the root alone, not the root with its
  descendants. The scope already holds the user's organization when
  \<open>collectDescendants\<close> starts from it, so the loop skips its first and only node.
\<close>

theorem admin_of_root_scope_misses_descendants:
  "resolveOrgScopeForUser (Some (mk_user ''u-admin'' ''org-root'' ''admin'')) example_organizations
     = [''org-root'']
   \<and> set (resolveOrgScopeForUser (Some (mk_user ''u-admin'' ''org-root'' ''admin''))
            example_organizations)
     \<noteq> {''org-root'', ''org-a'', ''org-b''}"
  by code_simp

text \<open>The same for every \<open>admin\<close> and every list of organizations.\<close>

lemma collectDescendants_of_member:
  "ident \<in> set acc \<Longrightarrow> collectDescendants ident childrenMap acc = acc"
  by (simp add: collectDescendants_def)

lemma resolveOrgScopeForUser_admin:
  assumes "normalizeRole (user_role user) = ADMIN"
    and "or_null (user_organization_id user) = Some userOrgId"
  shows "resolveOrgScopeForUser (Some user) orgs = [userOrgId]"
  using assms
  by (simp add: resolveOrgScopeForUser_def Let_def split_beta set_add_def
      collectDescendants_of_member ADMIN_def OWNER_def)

text \<open>
  The other cases: an \<open>owner\<close> has the own organization and every organization
  of the list; every role other than \<open>owner\<close> has the own organization alone.
\<close>

lemma set_foldl_scope_add:
  "set (foldl (\<lambda>scope o'. set_add scope (org_id o')) scope orgs) = set scope \<union> org_id ` set orgs"
  by (induction orgs arbitrary: scope) (auto simp: set_add_def)

lemma set_add_empty: "set_add [] x = [x]"
  by (simp add: set_add_def)

lemma resolveOrgScopeForUser_owner:
  assumes "normalizeRole (user_role user) = OWNER"
    and "or_null (user_organization_id user) = Some userOrgId"
  shows "set (resolveOrgScopeForUser (Some user) orgs) = insert userOrgId (org_id ` set orgs)"
  using assms
  by (simp add: resolveOrgScopeForUser_def Let_def split_beta set_foldl_scope_add set_add_empty)

lemma resolveOrgScopeForUser_other:
  assumes "normalizeRole (user_role user) \<noteq> OWNER"
    and "or_null (user_organization_id user) = Some userOrgId"
  shows "resolveOrgScopeForUser (Some user) orgs = [userOrgId]"
  using assms
  by (simp add: resolveOrgScopeForUser_def Let_def split_beta set_add_empty
      collectDescendants_of_member)

section \<open>Properties of category access and of the task listing\<close>

text \<open>
  C4. A category is in the result of \<open>listAccessibleCategoriesForRole(orgIds, role)\<close>
  exactly when it is a stored category of an organization in \<open>orgIds\<close> and either
  it has no access row and is a system category, or it has an access row for the
  role. So a category that is not a system category and has no access row is
  visible to no role. With no organization id the result is empty. The function
  is a query: it takes the store and returns rows only.
\<close>

theorem listAccessibleCategoriesForRole_visible_iff:
  "(c \<in> set (listAccessibleCategoriesForRole s orgIds role) \<longleftrightarrow>
      c \<in> set (categories s)
      \<and> cat_organization_id c \<in> set orgIds
      \<and> ((\<not> (\<exists>a \<in> set (category_role_access s). cra_category_id a = cat_id c)
           \<and> cat_is_system c = 1)
          \<or> (\<exists>a \<in> set (category_role_access s). cra_category_id a = cat_id c \<and> cra_role a = role)))
   \<and> (c \<in> set (categories s) \<and> cat_is_system c \<noteq> 1
        \<and> \<not> (\<exists>a \<in> set (category_role_access s). cra_category_id a = cat_id c) \<longrightarrow>
      c \<notin> set (listAccessibleCategoriesForRole s orgIds role))
   \<and> listAccessibleCategoriesForRole s [] role = []"
proof -
  have iff: "c \<in> set (listAccessibleCategoriesForRole s orgIds role) \<longleftrightarrow>
      c \<in> set (categories s)
      \<and> cat_organization_id c \<in> set orgIds
      \<and> ((\<not> (\<exists>a \<in> set (category_role_access s). cra_category_id a = cat_id c)
           \<and> cat_is_system c = 1)
          \<or> (\<exists>a \<in> set (category_role_access s). cra_category_id a = cat_id c \<and> cra_role a = role))"
  proof (cases "orgIds = []")
    case True
    then show ?thesis by (simp add: listAccessibleCategoriesForRole_def)
  next
    case False
    then show ?thesis
      by (auto simp add: listAccessibleCategoriesForRole_def Let_def filter_empty_conv
          image_iff split: if_splits)
  qed
  then show ?thesis
    by (auto simp add: listAccessibleCategoriesForRole_def)
qed

theorem listAccessibleCategoriesForRole_visible_iff_witness:
  "\<lparr>cat_id = ''c-plans'', cat_organization_id = ''org-root'', cat_name = ''Plans'',
     cat_is_system = 0, cat_created_at = 1\<rparr>
     \<in> set (listAccessibleCategoriesForRole example_db [''org-root''] ''admin'')
   \<and> \<lparr>cat_id = ''c-misc'', cat_organization_id = ''org-root'', cat_name = ''Misc'',
       cat_is_system = 0, cat_created_at = 2\<rparr>
     \<notin> set (listAccessibleCategoriesForRole example_db [''org-root''] ''admin'')
   \<and> listAccessibleCategoriesForRole example_db [] ''admin'' = []"
  using listAccessibleCategoriesForRole_visible_iff
      [of "\<lparr>cat_id = ''c-plans'', cat_organization_id = ''org-root'', cat_name = ''Plans'',
             cat_is_system = 0, cat_created_at = 1\<rparr>" example_db "[''org-root'']" "''admin''"]
    listAccessibleCategoriesForRole_visible_iff
      [of "\<lparr>cat_id = ''c-misc'', cat_organization_id = ''org-root'', cat_name = ''Misc'',
             cat_is_system = 0, cat_created_at = 2\<rparr>" example_db "[''org-root'']" "''admin''"]
    listAccessibleCategoriesForRole_visible_iff
      [of "\<lparr>cat_id = ''c-misc'', cat_organization_id = ''org-root'', cat_name = ''Misc'',
             cat_is_system = 0, cat_created_at = 2\<rparr>" example_db "[]" "''admin''"]
  by (simp add: example_db_def)

text \<open>
  C5. In the listing of \<open>GET /tasks\<close> for a user \<open>B\<close>, a task of category
  \<open>Personal\<close> appears only when \<open>B\<close> created it: a \<open>Personal\<close> task created
  by another user \<open>A\<close> is in no listing of \<open>B\<close>, whatever the role of \<open>B\<close>, the
  organization scope, the filters and the category access rows.
\<close>

theorem personal_tasks_only_for_creator:
  assumes "tasks_get s req = Json listing"
    and "auth_user req = Some B"
    and "task_category t = Some ''Personal''"
  shows "(t \<in> set listing \<longrightarrow> task_created_by t = Some (user_id B))
         \<and> (task_created_by t = Some (user_id A) \<and> user_id A \<noteq> user_id B \<longrightarrow> t \<notin> set listing)"
proof -
  have "t \<in> set listing \<Longrightarrow> task_created_by t = Some (user_id B)"
    using assms
    by (auto simp add: tasks_get_def Let_def split: guard_result.splits if_splits)
  then show ?thesis by auto
qed

lemma tasks_get_example_admin:
  "tasks_get example_db (example_request ''u-admin'' ''admin'')
     = Json [mk_task ''t-1'' ''org-root'' ''Work'' ''u-owner'' 1,
             mk_task ''t-2'' ''org-root'' ''Personal'' ''u-admin'' 2,
             mk_task ''t-4'' ''org-root'' ''Plans'' ''u-admin'' 4]"
  by code_simp

lemma tasks_get_example_owner:
  "tasks_get example_db (example_request ''u-owner'' ''owner'')
     = Json [mk_task ''t-1'' ''org-root'' ''Work'' ''u-owner'' 1,
             mk_task ''t-4'' ''org-root'' ''Plans'' ''u-admin'' 4]"
  by code_simp

theorem personal_tasks_only_for_creator_witness:
  "tasks_get example_db (example_request ''u-admin'' ''admin'')
     = Json [mk_task ''t-1'' ''org-root'' ''Work'' ''u-owner'' 1,
             mk_task ''t-2'' ''org-root'' ''Personal'' ''u-admin'' 2,
             mk_task ''t-4'' ''org-root'' ''Plans'' ''u-admin'' 4]
   \<and> mk_task ''t-3'' ''org-root'' ''Personal'' ''u-viewer'' 3
       \<notin> set [mk_task ''t-1'' ''org-root'' ''Work'' ''u-owner'' 1,
               mk_task ''t-2'' ''org-root'' ''Personal'' ''u-admin'' 2,
               mk_task ''t-4'' ''org-root'' ''Plans'' ''u-admin'' 4]"
proof -
  have h1: "auth_user (example_request ''u-admin'' ''admin'')
              = Some (mk_user ''u-admin'' ''org-root'' ''admin'')"
    by (simp add: example_request_def)
  have h2: "task_category (mk_task ''t-3'' ''org-root'' ''Personal'' ''u-viewer'' 3)
              = Some ''Personal''"
    by (simp add: mk_task_def)
  have h3: "task_created_by (mk_task ''t-3'' ''org-root'' ''Personal'' ''u-viewer'' 3)
              = Some (user_id (mk_user ''u-viewer'' ''org-root'' ''viewer''))
            \<and> user_id (mk_user ''u-viewer'' ''org-root'' ''viewer'')
              \<noteq> user_id (mk_user ''u-admin'' ''org-root'' ''admin'')"
    by (simp add: mk_task_def mk_user_def)
  from personal_tasks_only_for_creator [OF tasks_get_example_admin h1 h2,
      of "mk_user ''u-viewer'' ''org-root'' ''viewer''"] h3
  show ?thesis
    using tasks_get_example_admin by blast
qed

section \<open>Properties of the role lifecycle\<close>

lemma updateRole_rename_unfold:
  assumes ex: "getRoleByName s oldName = Some existing"
    and new: "new = toLowerCase (trim name)" "new \<noteq> []" "new \<noteq> role_name existing"
    and ok: "fst (updateRole s oldName (Some name) description) = Inr result"
  shows "\<exists>s2. snd (updateRole s oldName (Some name) description)
               = (case description of
                    Description_undefined \<Rightarrow> s2
                  | Description_null \<Rightarrow> update_roles_description s2 None (role_id existing)
                  | Description d \<Rightarrow> update_roles_description s2 (or_null (Some d)) (role_id existing))
             \<and> s2 = s\<lparr>roles := map (\<lambda>r. if role_id r = role_id existing
                                         then r\<lparr>role_name := new\<rparr> else r) (roles s),
                      users := map (\<lambda>u. if user_role u = role_name existing
                                         then u\<lparr>user_role := new\<rparr> else u) (users s),
                      role_permissions :=
                        map (\<lambda>r. if rp_role r = role_name existing then r\<lparr>rp_role := new\<rparr> else r)
                          (role_permissions s)\<rparr>"
proof -
  have sys: "role_is_system existing = 0"
    using ex ok by (auto simp: updateRole_def split: if_splits)
  have nn: "or_null (Some new) = Some new"
    using new by (simp add: or_null_def)
  obtain s1 where s1: "update_roles_name s new (role_id existing) = Inr s1"
    using ex ok sys new nn
    by (cases "update_roles_name s new (role_id existing)")
      (auto simp: updateRole_def withTransaction_def)
  then have s1_eq: "s1 = s\<lparr>roles := map (\<lambda>r. if role_id r = role_id existing
                                         then r\<lparr>role_name := new\<rparr> else r) (roles s)\<rparr>"
    by (auto simp: update_roles_name_def split: if_splits)
  obtain s2 where s2: "update_role_permissions_role
       (update_users_role s1 new (role_name existing)) new (role_name existing) = Inr s2"
    using ex ok sys new nn s1
    by (cases "update_role_permissions_role
       (update_users_role s1 new (role_name existing)) new (role_name existing)")
      (auto simp: updateRole_def withTransaction_def)
  then have s2_eq: "s2 = s\<lparr>roles := map (\<lambda>r. if role_id r = role_id existing
                                         then r\<lparr>role_name := new\<rparr> else r) (roles s),
                      users := map (\<lambda>u. if user_role u = role_name existing
                                         then u\<lparr>user_role := new\<rparr> else u) (users s),
                      role_permissions :=
                        map (\<lambda>r. if rp_role r = role_name existing then r\<lparr>rp_role := new\<rparr> else r)
                          (role_permissions s)\<rparr>"
    unfolding s1_eq
    by (auto simp: update_role_permissions_role_def update_users_role_def split: if_splits)
  have "snd (updateRole s oldName (Some name) description)
               = (case description of
                    Description_undefined \<Rightarrow> s2
                  | Description_null \<Rightarrow> update_roles_description s2 None (role_id existing)
                  | Description d \<Rightarrow> update_roles_description s2 (or_null (Some d)) (role_id existing))"
    using ex sys new nn s1 s2
    by (simp add: updateRole_def withTransaction_def Let_def)
  with s2_eq show ?thesis by blast
qed

lemma updateRole_rollback:
  "fst (updateRole s oldName name description) = Inl e \<Longrightarrow>
   snd (updateRole s oldName name description) = s"
  by (auto simp: updateRole_def withTransaction_def Let_def
      split: option.splits if_splits sum.splits)

lemma getRoleByName_in_roles:
  "getRoleByName s name = Some existing \<Longrightarrow>
   existing \<in> set (roles s) \<and> sql_lower (role_name existing) = sql_lower name"
proof -
  assume a: "getRoleByName s name = Some existing"
  then have "existing \<in> set (filter (\<lambda>r. sql_lower (role_name r) = sql_lower name) (roles s))"
    by (cases "filter (\<lambda>r. sql_lower (role_name r) = sql_lower name) (roles s)")
      (auto simp: getRoleByName_def get_def)
  then show ?thesis by simp
qed

lemma description_update_keeps_id_and_name:
  "(\<exists>r \<in> set (map (\<lambda>r. if role_id r = i then r\<lparr>role_description := d\<rparr> else r) xs).
      role_id r = j) = (\<exists>r \<in> set xs. role_id r = j)"
  "(\<forall>r \<in> set (map (\<lambda>r. if role_id r = i then r\<lparr>role_description := d\<rparr> else r) xs).
      role_id r = j \<longrightarrow> role_name r = n) = (\<forall>r \<in> set xs. role_id r = j \<longrightarrow> role_name r = n)"
  by (induction xs) auto

text \<open>
  C6. A successful rename of a custom role by \<open>updateRole\<close>, from the stored name
  \<open>old\<close> of the catalog row to the new name (the argument trimmed and lower-cased,
  not empty and different from \<open>old\<close>): afterwards the catalog row bears the new
  name; the users are those before with every role \<open>old\<close> replaced by the new name,
  so no user holds \<open>old\<close>; the dynamic-permission rows are those before with every
  role \<open>old\<close> replaced by the new name and every other column, \<open>enabled\<close>
  included, as it was, so no row refers to \<open>old\<close>; the other tables are as before.
  The three updates run in one transaction: a call of \<open>updateRole\<close> that fails
  leaves the store as it was.
\<close>

theorem updateRole_rename_atomic_cascade:
  assumes "getRoleByName s oldName = Some existing"
    and "new = toLowerCase (trim name)" and "new \<noteq> []" and "new \<noteq> role_name existing"
    and "fst (updateRole s oldName (Some name) description) = Inr result"
    and "s' = snd (updateRole s oldName (Some name) description)"
  shows "(\<exists>r \<in> set (roles s'). role_id r = role_id existing)
     \<and> (\<forall>r \<in> set (roles s'). role_id r = role_id existing \<longrightarrow> role_name r = new)
     \<and> users s' = map (\<lambda>u. if user_role u = role_name existing then u\<lparr>user_role := new\<rparr> else u)
                     (users s)
     \<and> (\<forall>u \<in> set (users s'). user_role u \<noteq> role_name existing)
     \<and> role_permissions s'
         = map (\<lambda>r. if rp_role r = role_name existing then r\<lparr>rp_role := new\<rparr> else r)
             (role_permissions s)
     \<and> (\<forall>r \<in> set (role_permissions s'). rp_role r \<noteq> role_name existing)
     \<and> organizations s' = organizations s \<and> tasks s' = tasks s
     \<and> categories s' = categories s \<and> category_role_access s' = category_role_access s
     \<and> (\<forall>name' description' e.
           fst (updateRole s oldName name' description') = Inl e \<longrightarrow>
           snd (updateRole s oldName name' description') = s)"
proof -
  from updateRole_rename_unfold [OF assms(1-5)]
  obtain s2 where s': "s' = (case description of
                    Description_undefined \<Rightarrow> s2
                  | Description_null \<Rightarrow> update_roles_description s2 None (role_id existing)
                  | Description d \<Rightarrow> update_roles_description s2 (or_null (Some d)) (role_id existing))"
    and s2: "s2 = s\<lparr>roles := map (\<lambda>r. if role_id r = role_id existing
                                         then r\<lparr>role_name := new\<rparr> else r) (roles s),
                      users := map (\<lambda>u. if user_role u = role_name existing
                                         then u\<lparr>user_role := new\<rparr> else u) (users s),
                      role_permissions :=
                        map (\<lambda>r. if rp_role r = role_name existing then r\<lparr>rp_role := new\<rparr> else r)
                          (role_permissions s)\<rparr>"
    using assms(6) by auto
  have ex: "existing \<in> set (roles s)"
    using getRoleByName_in_roles [OF assms(1)] by simp
  have roles2: "(\<exists>r \<in> set (roles s2). role_id r = role_id existing)
     \<and> (\<forall>r \<in> set (roles s2). role_id r = role_id existing \<longrightarrow> role_name r = new)"
  proof (intro conjI)
    have "existing\<lparr>role_name := new\<rparr> \<in> set (roles s2)"
      using ex by (force simp: s2)
    then show "\<exists>r \<in> set (roles s2). role_id r = role_id existing"
      by (rule bexI [rotated]) simp
    show "\<forall>r \<in> set (roles s2). role_id r = role_id existing \<longrightarrow> role_name r = new"
      by (auto simp: s2)
  qed
  have roles': "(\<exists>r \<in> set (roles s'). role_id r = role_id existing)
     \<and> (\<forall>r \<in> set (roles s'). role_id r = role_id existing \<longrightarrow> role_name r = new)"
  proof (cases description)
    case Description_undefined
    with roles2 s' show ?thesis by simp
  next
    case Description_null
    have "roles s' = map (\<lambda>r. if role_id r = role_id existing
                               then r\<lparr>role_description := None\<rparr> else r) (roles s2)"
      using Description_null s' by (simp add: update_roles_description_def)
    with roles2 show ?thesis by (simp add: description_update_keeps_id_and_name del: set_map)
  next
    case (Description d)
    have "roles s' = map (\<lambda>r. if role_id r = role_id existing
                               then r\<lparr>role_description := or_null (Some d)\<rparr> else r) (roles s2)"
      using Description s' by (simp add: update_roles_description_def)
    with roles2 show ?thesis by (simp add: description_update_keeps_id_and_name del: set_map)
  qed
  have rest: "users s' = users s2 \<and> role_permissions s' = role_permissions s2
      \<and> organizations s' = organizations s \<and> tasks s' = tasks s
      \<and> categories s' = categories s \<and> category_role_access s' = category_role_access s"
    using s' s2 by (cases description) (simp_all add: update_roles_description_def)
  have users': "users s' = map (\<lambda>u. if user_role u = role_name existing
                                     then u\<lparr>user_role := new\<rparr> else u) (users s)"
    using rest s2 by simp
  have perms': "role_permissions s'
         = map (\<lambda>r. if rp_role r = role_name existing then r\<lparr>rp_role := new\<rparr> else r)
             (role_permissions s)"
    using rest s2 by simp
  have no_users: "\<forall>u \<in> set (users s'). user_role u \<noteq> role_name existing"
    unfolding users' using assms(4) by auto
  have no_perms: "\<forall>r \<in> set (role_permissions s'). rp_role r \<noteq> role_name existing"
    unfolding perms' using assms(4) by auto
  have atomic: "\<forall>name' description' e.
           fst (updateRole s oldName name' description') = Inl e \<longrightarrow>
           snd (updateRole s oldName name' description') = s"
    using updateRole_rollback by blast
  from roles' users' no_users perms' no_perms rest atomic show ?thesis by blast
qed

theorem updateRole_rename_atomic_cascade_witness:
  "getRoleByName example_db ''Editor'' = Some example_editor_role
   \<and> fst (updateRole example_db ''Editor'' (Some '' Contributor '') Description_undefined)
       = Inr (Some (example_editor_role\<lparr>role_name := ''contributor''\<rparr>))
   \<and> map user_role (users (snd (updateRole example_db ''Editor'' (Some '' Contributor '')
                                    Description_undefined)))
       = [''owner'', ''admin'', ''viewer'', ''contributor'']
   \<and> map (\<lambda>r. (rp_role r, rp_enabled r))
         (role_permissions (snd (updateRole example_db ''Editor'' (Some '' Contributor '')
                                   Description_undefined)))
       = [(''admin'', 1), (''contributor'', 1), (''contributor'', 1), (''contributor'', 0),
          (''auditor'', 1)]"
proof -
  have h1: "getRoleByName example_db ''Editor'' = Some example_editor_role"
    by code_simp
  have h2: "''contributor'' = toLowerCase (trim '' Contributor '')"
    by code_simp
  have h3: "''contributor'' \<noteq> []"
    by simp
  have h4: "''contributor'' \<noteq> role_name example_editor_role"
    by (simp add: example_editor_role_def)
  have h5: "fst (updateRole example_db ''Editor'' (Some '' Contributor '') Description_undefined)
       = Inr (Some (example_editor_role\<lparr>role_name := ''contributor''\<rparr>))"
    by code_simp
  from updateRole_rename_atomic_cascade [OF h1 h2 h3 h4 h5 refl]
  have u: "users (snd (updateRole example_db ''Editor'' (Some '' Contributor '')
                        Description_undefined))
          = map (\<lambda>u. if user_role u = role_name example_editor_role
                      then u\<lparr>user_role := ''contributor''\<rparr> else u)
              (users example_db)"
    and p: "role_permissions (snd (updateRole example_db ''Editor'' (Some '' Contributor '')
                                   Description_undefined))
          = map (\<lambda>r. if rp_role r = role_name example_editor_role
                      then r\<lparr>rp_role := ''contributor''\<rparr> else r)
              (role_permissions example_db)"
    by blast+
  have u': "map user_role (users (snd (updateRole example_db ''Editor'' (Some '' Contributor '')
                                    Description_undefined)))
       = [''owner'', ''admin'', ''viewer'', ''contributor'']"
    unfolding u by (simp add: example_db_def mk_user_def example_editor_role_def)
  have p': "map (\<lambda>r. (rp_role r, rp_enabled r))
         (role_permissions (snd (updateRole example_db ''Editor'' (Some '' Contributor '')
                                   Description_undefined)))
       = [(''admin'', 1), (''contributor'', 1), (''contributor'', 1), (''contributor'', 0),
          (''auditor'', 1)]"
    unfolding p by (simp add: example_db_def example_editor_role_def)
  from h1 h5 u' p' show ?thesis by blast
qed

text \<open>
  C7. \<open>deleteRole\<close>: for a custom role of the catalog held by a user the call
  fails with \<open>ROLE_IN_USE\<close>, a signal other than the one for a missing role, and
  the store is unchanged; for a catalog row flagged as system role, and so for the
  names \<open>owner\<close>, \<open>admin\<close> and \<open>viewer\<close> in a catalog that flags its rows of
  these names, it fails with the system-role signal and the store is unchanged; for
  a custom role that no user holds it succeeds, and the role's permission rows are
  deleted together with its catalog row, the users untouched.
\<close>

theorem deleteRole_guarded:
  "(getRoleByName s name = Some existing \<and> role_is_system existing = 0
      \<and> (\<exists>u \<in> set (users s). user_role u = role_name existing) \<longrightarrow>
        deleteRole s name = (Inl ROLE_IN_USE, s))
   \<and> ROLE_IN_USE \<noteq> RoleNotFound
   \<and> (getRoleByName s name = None \<longrightarrow> deleteRole s name = (Inl RoleNotFound, s))
   \<and> (getRoleByName s name = Some existing \<and> role_is_system existing \<noteq> 0 \<longrightarrow>
        deleteRole s name = (Inl CannotDeleteSystemRole, s))
   \<and> (sql_lower name \<in> {OWNER, ADMIN, VIEWER}
        \<and> (\<exists>r \<in> set (roles s). sql_lower (role_name r) = sql_lower name)
        \<and> (\<forall>r \<in> set (roles s).
              sql_lower (role_name r) \<in> {OWNER, ADMIN, VIEWER} \<longrightarrow> role_is_system r \<noteq> 0) \<longrightarrow>
        deleteRole s name = (Inl CannotDeleteSystemRole, s))
   \<and> (getRoleByName s name = Some existing \<and> role_is_system existing = 0
      \<and> \<not> (\<exists>u \<in> set (users s). user_role u = role_name existing) \<longrightarrow>
        deleteRole s name
          = (Inr True,
             s\<lparr>role_permissions :=
                  filter (\<lambda>r. rp_role r \<noteq> role_name existing) (role_permissions s),
                roles := filter (\<lambda>r. role_id r \<noteq> role_id existing) (roles s)\<rparr>)
        \<and> (\<forall>r \<in> set (role_permissions (snd (deleteRole s name))).
              rp_role r \<noteq> role_name existing)
        \<and> (\<forall>r \<in> set (roles (snd (deleteRole s name))). role_id r \<noteq> role_id existing)
        \<and> users (snd (deleteRole s name)) = users s)"
proof (intro conjI impI)
  assume "getRoleByName s name = Some existing \<and> role_is_system existing = 0
      \<and> (\<exists>u \<in> set (users s). user_role u = role_name existing)"
  then show "deleteRole s name = (Inl ROLE_IN_USE, s)"
    by (auto simp: deleteRole_def Let_def filter_empty_conv)
next
  show "ROLE_IN_USE \<noteq> RoleNotFound" by simp
next
  assume "getRoleByName s name = None"
  then show "deleteRole s name = (Inl RoleNotFound, s)"
    by (simp add: deleteRole_def)
next
  assume "getRoleByName s name = Some existing \<and> role_is_system existing \<noteq> 0"
  then show "deleteRole s name = (Inl CannotDeleteSystemRole, s)"
    by (simp add: deleteRole_def)
next
  assume a: "sql_lower name \<in> {OWNER, ADMIN, VIEWER}
        \<and> (\<exists>r \<in> set (roles s). sql_lower (role_name r) = sql_lower name)
        \<and> (\<forall>r \<in> set (roles s).
              sql_lower (role_name r) \<in> {OWNER, ADMIN, VIEWER} \<longrightarrow> role_is_system r \<noteq> 0)"
  then have "filter (\<lambda>r. sql_lower (role_name r) = sql_lower name) (roles s) \<noteq> []"
    by (auto simp: filter_empty_conv)
  then obtain found where f: "getRoleByName s name = Some found"
    by (cases "filter (\<lambda>r. sql_lower (role_name r) = sql_lower name) (roles s)")
      (auto simp: getRoleByName_def get_def)
  from getRoleByName_in_roles [OF f] a have "role_is_system found \<noteq> 0" by auto
  with f show "deleteRole s name = (Inl CannotDeleteSystemRole, s)"
    by (simp add: deleteRole_def)
next
  assume a: "getRoleByName s name = Some existing \<and> role_is_system existing = 0
      \<and> \<not> (\<exists>u \<in> set (users s). user_role u = role_name existing)"
  then have none: "filter (\<lambda>u. user_role u = role_name existing) (users s) = []"
    by (auto simp: filter_empty_conv)
  show d: "deleteRole s name
          = (Inr True,
             s\<lparr>role_permissions :=
                  filter (\<lambda>r. rp_role r \<noteq> role_name existing) (role_permissions s),
                roles := filter (\<lambda>r. role_id r \<noteq> role_id existing) (roles s)\<rparr>)"
    using a none by (simp add: deleteRole_def withTransaction_def)
  show "\<forall>r \<in> set (role_permissions (snd (deleteRole s name))). rp_role r \<noteq> role_name existing"
    by (simp add: d)
  show "\<forall>r \<in> set (roles (snd (deleteRole s name))). role_id r \<noteq> role_id existing"
    by (simp add: d)
  show "users (snd (deleteRole s name)) = users s"
    by (simp add: d)
qed

theorem deleteRole_guarded_witness:
  "deleteRole example_db ''editor'' = (Inl ROLE_IN_USE, example_db)
   \<and> deleteRole example_db ''Owner'' = (Inl CannotDeleteSystemRole, example_db)
   \<and> deleteRole example_db ''nobody'' = (Inl RoleNotFound, example_db)
   \<and> fst (deleteRole example_db ''auditor'') = Inr True
   \<and> map rp_id (role_permissions (snd (deleteRole example_db ''auditor'')))
       = [''rp-1'', ''rp-2'', ''rp-3'', ''rp-4'']
   \<and> map role_name (roles (snd (deleteRole example_db ''auditor'')))
       = [''owner'', ''admin'', ''viewer'', ''editor'', ''intern'']"
proof -
  have e: "getRoleByName example_db ''editor'' = Some example_editor_role
     \<and> role_is_system example_editor_role = 0
     \<and> (\<exists>u \<in> set (users example_db). user_role u = role_name example_editor_role)"
    by code_simp
  have o: "sql_lower ''Owner'' \<in> {OWNER, ADMIN, VIEWER}
      \<and> (\<exists>r \<in> set (roles example_db). sql_lower (role_name r) = sql_lower ''Owner'')
      \<and> (\<forall>r \<in> set (roles example_db).
            sql_lower (role_name r) \<in> {OWNER, ADMIN, VIEWER} \<longrightarrow> role_is_system r \<noteq> 0)"
    by code_simp
  have n: "getRoleByName example_db ''nobody'' = None"
    by code_simp
  have a: "getRoleByName example_db ''auditor'' = Some example_auditor_role
     \<and> role_is_system example_auditor_role = 0
     \<and> \<not> (\<exists>u \<in> set (users example_db). user_role u = role_name example_auditor_role)"
    by code_simp
  have 1: "deleteRole example_db ''editor'' = (Inl ROLE_IN_USE, example_db)"
    using e deleteRole_guarded [of example_db "''editor''" example_editor_role] by blast
  have 2: "deleteRole example_db ''Owner'' = (Inl CannotDeleteSystemRole, example_db)"
    using o deleteRole_guarded [of example_db "''Owner''"] by blast
  have 3: "deleteRole example_db ''nobody'' = (Inl RoleNotFound, example_db)"
    using n deleteRole_guarded [of example_db "''nobody''"] by blast
  have 4: "deleteRole example_db ''auditor''
          = (Inr True,
             example_db\<lparr>role_permissions :=
                  filter (\<lambda>r. rp_role r \<noteq> role_name example_auditor_role)
                    (role_permissions example_db),
                roles := filter (\<lambda>r. role_id r \<noteq> role_id example_auditor_role)
                           (roles example_db)\<rparr>)"
    using a deleteRole_guarded [of example_db "''auditor''" example_auditor_role] by blast
  have 5: "fst (deleteRole example_db ''auditor'') = Inr True"
    unfolding 4 by simp
  have 6: "map rp_id (role_permissions (snd (deleteRole example_db ''auditor'')))
       = [''rp-1'', ''rp-2'', ''rp-3'', ''rp-4'']"
    unfolding 4 by (simp add: example_db_def example_auditor_role_def)
  have 7: "map role_name (roles (snd (deleteRole example_db ''auditor'')))
       = [''owner'', ''admin'', ''viewer'', ''editor'', ''intern'']"
    unfolding 4 by (simp add: example_db_def example_auditor_role_def)
  from 1 2 3 5 6 7 show ?thesis by blast
qed

section \<open>Properties of the category access rows\<close>

lemma new_access_rows_role [simp]:
  "map cra_role (new_access_rows uuidv4 i categoryId rs) = rs"
  by (induction rs arbitrary: i) auto

lemma new_access_rows_category [simp]:
  "r \<in> set (new_access_rows uuidv4 i categoryId rs) \<Longrightarrow> cra_category_id r = categoryId"
  by (induction rs arbitrary: i) auto

lemma set_foldl_set_add: "set (foldl set_add acc xs) = set acc \<union> set xs"
  by (induction xs arbitrary: acc) (auto simp: set_add_def)

lemma distinct_foldl_set_add: "distinct acc \<Longrightarrow> distinct (foldl set_add acc xs)"
  by (induction xs arbitrary: acc) (auto simp: set_add_def)

lemma set_new_Set [simp]: "set (new_Set xs) = set xs"
  by (simp add: new_Set_def set_foldl_set_add)

lemma distinct_new_Set [simp]: "distinct (new_Set xs)"
  by (simp add: new_Set_def distinct_foldl_set_add)

lemma insert_uniqueRoles_succeeds:
  assumes "distinct rs"
    and "categoryId \<in> set (map cat_id (categories s))"
    and "\<forall>j < length rs. uuidv4 (i + j) \<notin> set (map cra_id (category_role_access s))"
    and "inj_on uuidv4 {i ..< i + length rs}"
    and "\<forall>r \<in> set (category_role_access s). cra_category_id r = categoryId \<longrightarrow> cra_role r \<notin> set rs"
  shows "insert_uniqueRoles s uuidv4 i categoryId rs
         = Inr (s\<lparr>category_role_access :=
                    category_role_access s @ new_access_rows uuidv4 i categoryId rs\<rparr>)"
  using assms
proof (induction rs arbitrary: s i)
  case Nil
  then show ?case by simp
next
  case (Cons role rest)
  let ?row = "\<lparr>cra_id = uuidv4 i, cra_category_id = categoryId, cra_role = role\<rparr>"
  let ?s1 = "s\<lparr>category_role_access := category_role_access s @ [?row]\<rparr>"
  have fresh0: "uuidv4 i \<notin> set (map cra_id (category_role_access s))"
    using Cons.prems(3) by (metis add.right_neutral length_greater_0_conv list.distinct(1))
  have uniq0: "\<not> (\<exists>r \<in> set (category_role_access s).
                    cra_category_id r = categoryId \<and> cra_role r = role)"
    using Cons.prems(5) by auto
  have ins: "insert_category_role_access s ?row = Inr ?s1"
    using fresh0 uniq0 Cons.prems(2) by (auto simp: insert_category_role_access_def)
  have p1: "distinct rest" using Cons.prems(1) by simp
  have p2: "categoryId \<in> set (map cat_id (categories ?s1))" using Cons.prems(2) by simp
  have p3: "\<forall>j < length rest. uuidv4 (Suc i + j) \<notin> set (map cra_id (category_role_access ?s1))"
  proof (intro allI impI)
    fix j assume j: "j < length rest"
    have a: "uuidv4 (Suc i + j) \<notin> set (map cra_id (category_role_access s))"
      using Cons.prems(3) j by (metis Suc_less_eq add_Suc_right add_Suc length_Cons)
    have "i \<in> {i ..< i + length (role # rest)}" "Suc i + j \<in> {i ..< i + length (role # rest)}"
      using j by auto
    with Cons.prems(4) have "uuidv4 (Suc i + j) \<noteq> uuidv4 i"
      by (metis inj_on_eq_iff Suc_n_not_le_n add_Suc le_add1)
    with a show "uuidv4 (Suc i + j) \<notin> set (map cra_id (category_role_access ?s1))"
      by simp
  qed
  have p4: "inj_on uuidv4 {Suc i ..< Suc i + length rest}"
    by (rule inj_on_subset [OF Cons.prems(4)]) auto
  have p5: "\<forall>r \<in> set (category_role_access ?s1).
              cra_category_id r = categoryId \<longrightarrow> cra_role r \<notin> set rest"
    using Cons.prems(1,5) by auto
  from Cons.IH [OF p1 p2 p3 p4 p5] ins show ?case by simp
qed

lemma map_insort_key: "map f (insort_key f x xs) = insort (f x) (map f xs)"
  by (induction xs) auto

lemma map_sort_key: "map f (sort_key f xs) = sort (map f xs)"
  by (induction xs) (auto simp: map_insort_key)

lemma setCategoryRoleAccess_result:
  assumes "categoryId \<in> set (map cat_id (categories s))"
    and "\<forall>j < length (uniqueRoles_of roles_arg).
           uuidv4 j \<notin> set (map cra_id (category_role_access s))"
    and "inj_on uuidv4 {..< length (uniqueRoles_of roles_arg)}"
  shows "setCategoryRoleAccess s uuidv4 categoryId roles_arg
         = (Inr (sort (uniqueRoles_of roles_arg)),
            s\<lparr>category_role_access :=
                 filter (\<lambda>r. cra_category_id r \<noteq> categoryId) (category_role_access s)
                 @ new_access_rows uuidv4 0 categoryId (uniqueRoles_of roles_arg)\<rparr>)"
proof -
  let ?rs = "uniqueRoles_of roles_arg"
  let ?s1 = "s\<lparr>category_role_access :=
                 filter (\<lambda>r. cra_category_id r \<noteq> categoryId) (category_role_access s)\<rparr>"
  let ?s2 = "?s1\<lparr>category_role_access :=
                 category_role_access ?s1 @ new_access_rows uuidv4 0 categoryId ?rs\<rparr>"
  have p1: "distinct ?rs" by (simp add: uniqueRoles_of_def)
  have p2: "categoryId \<in> set (map cat_id (categories ?s1))" using assms(1) by simp
  have p3: "\<forall>j < length ?rs. uuidv4 (0 + j) \<notin> set (map cra_id (category_role_access ?s1))"
    using assms(2) by auto
  have p4: "inj_on uuidv4 {0 ..< 0 + length ?rs}"
    using assms(3) by (simp add: atLeast0LessThan)
  have p5: "\<forall>r \<in> set (category_role_access ?s1).
              cra_category_id r = categoryId \<longrightarrow> cra_role r \<notin> set ?rs"
    by simp
  have ins: "insert_uniqueRoles ?s1 uuidv4 0 categoryId ?rs = Inr ?s2"
    by (rule insert_uniqueRoles_succeeds [OF p1 p2 p3 p4 p5])
  have "filter (\<lambda>r. cra_category_id r = categoryId) (category_role_access ?s2)
          = new_access_rows uuidv4 0 categoryId ?rs"
    by (auto simp: filter_empty_conv filter_id_conv)
  then have "listCategoryRoleAccess ?s2 categoryId = sort ?rs"
    by (simp only: listCategoryRoleAccess_def map_sort_key new_access_rows_role)
  with ins show ?thesis
    by (simp add: setCategoryRoleAccess_def withTransaction_def Let_def)
qed

lemma set_uniqueRoles_of:
  "set (uniqueRoles_of roles_arg)
     = {toLowerCase (trim r) | r. r \<in> set roles_arg \<and> toLowerCase (trim r) \<noteq> []}"
  by (auto simp: uniqueRoles_of_def)

text \<open>
  C10. \<open>setCategoryRoleAccess\<close> on an existing category replaces the category's
  access rows: afterwards the roles stored for the category are exactly the
  trimmed, lower-cased, non-empty entries of the input list, each once, whatever
  rows existed before; the rows of other categories are untouched; the returned
  list is that set in ascending order; and a second call with the same list returns
  the same list and stores the same roles. The identifiers drawn by \<open>uuidv4()\<close>
  are taken to be new to the table and different from each other.
\<close>

theorem setCategoryRoleAccess_replaces_access_rows:
  assumes "categoryId \<in> set (map cat_id (categories s))"
    and "\<forall>j < length (uniqueRoles_of roles_arg).
           uuidv4 j \<notin> set (map cra_id (category_role_access s))"
    and "inj_on uuidv4 {..< length (uniqueRoles_of roles_arg)}"
    and "s' = snd (setCategoryRoleAccess s uuidv4 categoryId roles_arg)"
  shows "fst (setCategoryRoleAccess s uuidv4 categoryId roles_arg)
           = Inr (sorted_list_of_set
                    {toLowerCase (trim r) | r. r \<in> set roles_arg \<and> toLowerCase (trim r) \<noteq> []})
     \<and> set (map cra_role (filter (\<lambda>r. cra_category_id r = categoryId) (category_role_access s')))
           = {toLowerCase (trim r) | r. r \<in> set roles_arg \<and> toLowerCase (trim r) \<noteq> []}
     \<and> distinct (map cra_role
                    (filter (\<lambda>r. cra_category_id r = categoryId) (category_role_access s')))
     \<and> listCategoryRoleAccess s' categoryId
           = sorted_list_of_set
               {toLowerCase (trim r) | r. r \<in> set roles_arg \<and> toLowerCase (trim r) \<noteq> []}
     \<and> filter (\<lambda>r. cra_category_id r \<noteq> categoryId) (category_role_access s')
           = filter (\<lambda>r. cra_category_id r \<noteq> categoryId) (category_role_access s)
     \<and> (\<forall>uuidv4'.
           (\<forall>j < length (uniqueRoles_of roles_arg).
               uuidv4' j \<notin> set (map cra_id (category_role_access s')))
           \<and> inj_on uuidv4' {..< length (uniqueRoles_of roles_arg)} \<longrightarrow>
           fst (setCategoryRoleAccess s' uuidv4' categoryId roles_arg)
             = fst (setCategoryRoleAccess s uuidv4 categoryId roles_arg)
           \<and> map cra_role (filter (\<lambda>r. cra_category_id r = categoryId)
                             (category_role_access
                                (snd (setCategoryRoleAccess s' uuidv4' categoryId roles_arg))))
             = map cra_role (filter (\<lambda>r. cra_category_id r = categoryId)
                               (category_role_access s')))"
proof -
  let ?rs = "uniqueRoles_of roles_arg"
  let ?S = "{toLowerCase (trim r) | r. r \<in> set roles_arg \<and> toLowerCase (trim r) \<noteq> []}"
  have d: "distinct ?rs" by (simp add: uniqueRoles_of_def)
  have sorted_eq: "sort ?rs = sorted_list_of_set ?S"
    using d by (simp add: set_uniqueRoles_of [symmetric] sorted_list_of_set_sort_remdups distinct_remdups_id)
  note r = setCategoryRoleAccess_result [OF assms(1-3)]
  have s': "s' = s\<lparr>category_role_access :=
                 filter (\<lambda>r. cra_category_id r \<noteq> categoryId) (category_role_access s)
                 @ new_access_rows uuidv4 0 categoryId ?rs\<rparr>"
    using assms(4) r by simp
  have rows: "filter (\<lambda>r. cra_category_id r = categoryId) (category_role_access s')
          = new_access_rows uuidv4 0 categoryId ?rs"
    unfolding s' by (auto simp: filter_empty_conv filter_id_conv)
  have others: "filter (\<lambda>r. cra_category_id r \<noteq> categoryId) (category_role_access s')
           = filter (\<lambda>r. cra_category_id r \<noteq> categoryId) (category_role_access s)"
    unfolding s' by (auto simp: filter_empty_conv)
  have c1: "fst (setCategoryRoleAccess s uuidv4 categoryId roles_arg)
           = Inr (sorted_list_of_set ?S)"
    using r sorted_eq by simp
  have c2: "set (map cra_role (filter (\<lambda>r. cra_category_id r = categoryId)
                                 (category_role_access s'))) = ?S"
    unfolding rows new_access_rows_role by (rule set_uniqueRoles_of)
  have c3: "distinct (map cra_role
                    (filter (\<lambda>r. cra_category_id r = categoryId) (category_role_access s')))"
    unfolding rows new_access_rows_role by (rule d)
  have c4: "listCategoryRoleAccess s' categoryId = sorted_list_of_set ?S"
    unfolding listCategoryRoleAccess_def rows map_sort_key new_access_rows_role
    by (rule sorted_eq)
  have c6: "\<forall>uuidv4'.
           (\<forall>j < length ?rs. uuidv4' j \<notin> set (map cra_id (category_role_access s')))
           \<and> inj_on uuidv4' {..< length ?rs} \<longrightarrow>
           fst (setCategoryRoleAccess s' uuidv4' categoryId roles_arg)
             = fst (setCategoryRoleAccess s uuidv4 categoryId roles_arg)
           \<and> map cra_role (filter (\<lambda>r. cra_category_id r = categoryId)
                             (category_role_access
                                (snd (setCategoryRoleAccess s' uuidv4' categoryId roles_arg))))
             = map cra_role (filter (\<lambda>r. cra_category_id r = categoryId)
                               (category_role_access s'))"
  proof (intro allI impI)
    fix uuidv4'
    assume a: "(\<forall>j < length ?rs. uuidv4' j \<notin> set (map cra_id (category_role_access s')))
           \<and> inj_on uuidv4' {..< length ?rs}"
    have cat': "categoryId \<in> set (map cat_id (categories s'))"
      using assms(1) by (simp add: s')
    from a have f': "\<forall>j < length ?rs. uuidv4' j \<notin> set (map cra_id (category_role_access s'))"
      and i': "inj_on uuidv4' {..< length ?rs}" by blast+
    note r' = setCategoryRoleAccess_result [OF cat' f' i']
    have again: "filter (\<lambda>r. cra_category_id r = categoryId)
            (category_role_access (snd (setCategoryRoleAccess s' uuidv4' categoryId roles_arg)))
          = new_access_rows uuidv4' 0 categoryId ?rs"
      unfolding r' by (auto simp: filter_empty_conv filter_id_conv)
    show "fst (setCategoryRoleAccess s' uuidv4' categoryId roles_arg)
             = fst (setCategoryRoleAccess s uuidv4 categoryId roles_arg)
           \<and> map cra_role (filter (\<lambda>r. cra_category_id r = categoryId)
                             (category_role_access
                                (snd (setCategoryRoleAccess s' uuidv4' categoryId roles_arg))))
             = map cra_role (filter (\<lambda>r. cra_category_id r = categoryId)
                               (category_role_access s'))"
      unfolding again rows new_access_rows_role using r r' by simp
  qed
  from c1 c2 c3 c4 others c6 show ?thesis by blast
qed

theorem setCategoryRoleAccess_replaces_access_rows_witness:
  "fst (setCategoryRoleAccess example_db example_uuidv4 ''c-plans''
          [''Viewer'', '' editor '', ''viewer'', ''  ''])
     = Inr (sorted_list_of_set
              {toLowerCase (trim r) | r.
                 r \<in> set [''Viewer'', '' editor '', ''viewer'', ''  '']
                 \<and> toLowerCase (trim r) \<noteq> []})
   \<and> fst (setCategoryRoleAccess example_db example_uuidv4 ''c-plans''
          [''Viewer'', '' editor '', ''viewer'', ''  ''])
     = Inr [''editor'', ''viewer'']
   \<and> listCategoryRoleAccess
       (snd (setCategoryRoleAccess example_db example_uuidv4 ''c-plans''
               [''Viewer'', '' editor '', ''viewer'', ''  ''])) ''c-plans''
     = sorted_list_of_set
              {toLowerCase (trim r) | r.
                 r \<in> set [''Viewer'', '' editor '', ''viewer'', ''  '']
                 \<and> toLowerCase (trim r) \<noteq> []}"
proof -
  have h1: "''c-plans'' \<in> set (map cat_id (categories example_db))"
    by (simp add: example_db_def)
  have h2: "\<forall>j < length (uniqueRoles_of [''Viewer'', '' editor '', ''viewer'', ''  '']).
              example_uuidv4 j \<notin> set (map cra_id (category_role_access example_db))"
    by (simp add: example_db_def example_uuidv4_def)
  have "inj example_uuidv4"
    by (rule injI) (metis example_uuidv4_def length_replicate same_append_eq)
  then have h3: "inj_on example_uuidv4
                   {..< length (uniqueRoles_of [''Viewer'', '' editor '', ''viewer'', ''  ''])}"
    by (rule inj_on_subset) simp
  have v: "fst (setCategoryRoleAccess example_db example_uuidv4 ''c-plans''
          [''Viewer'', '' editor '', ''viewer'', ''  ''])
     = Inr [''editor'', ''viewer'']"
    by code_simp
  from setCategoryRoleAccess_replaces_access_rows [OF h1 h2 h3 refl] v
  show ?thesis by blast
qed

end
